theory Spec2Isabelle
  imports Main
begin

section \<open>Decimal arithmetic\<close>

text \<open>
  Prices and cash are values of Python's \<^verbatim>\<open>decimal.Decimal\<close>. A finite decimal is
  a signed coefficient and an exponent and stands for \<open>coef * 10 ^ expo\<close>. The
  constructor (\<^verbatim>\<open>Decimal('0.5')\<close>, \<^verbatim>\<open>Decimal(100_000)\<close>, \<^verbatim>\<open>Decimal(float)\<close>) is exact,
  but every arithmetic operation computes the exact result and then rounds it to the
  precision of the context. The program never changes the context, so the default one
  applies: 28 significant digits, rounding half to even.

  Scope of the model: finite values whose exponents stay inside the context's limits
  (\<^verbatim>\<open>Emin = -999999\<close>, \<^verbatim>\<open>Emax = 999999\<close>), so that no operation overflows or becomes
  subnormal; the sign of a zero is not recorded (Python compares \<^verbatim>\<open>-0\<close> and \<^verbatim>\<open>0\<close>
  equal). NaN and the infinities are not modelled.
\<close>

datatype decimal = Dec (coef: int) (expo: int)

definition prec :: nat where
  "prec = 28"

text \<open>The number of decimal digits of a non-negative coefficient (\<^verbatim>\<open>len(self._int)\<close>).\<close>

function ndigits :: "int \<Rightarrow> nat" where
  "ndigits n = (if n < 10 then 1 else Suc (ndigits (n div 10)))"
  by pat_completeness auto
termination
  by (relation "measure nat") auto

declare ndigits.simps [simp del]

text \<open>Dropping the last \<open>k\<close> digits of \<open>n\<close>, rounding half to even.\<close>

definition round_half_even :: "int \<Rightarrow> nat \<Rightarrow> int" where
  "round_half_even n k =
     (let q = n div 10 ^ k; r = n mod 10 ^ k
      in if 10 ^ k < 2 * r \<or> (2 * r = 10 ^ k \<and> odd q) then q + 1 else q)"

text \<open>
  \<^verbatim>\<open>Decimal._fix\<close>: a coefficient of more than \<open>prec\<close> digits is cut to \<open>prec\<close> digits;
  when rounding up carries into one more digit, the last digit (a zero) is dropped
  and the exponent grows by one.
\<close>

definition dec_fix :: "decimal \<Rightarrow> decimal" where
  "dec_fix d =
     (let n = \<bar>coef d\<bar>; l = ndigits n
      in if l \<le> prec then d
         else let k = l - prec; m = round_half_even n k
              in if prec < ndigits m
                 then Dec (sgn (coef d) * (m div 10)) (expo d + int k + 1)
                 else Dec (sgn (coef d) * m) (expo d + int k))"

text \<open>The coefficient of \<open>d\<close> written at the exponent \<open>e \<le> expo d\<close>.\<close>

definition aligned :: "int \<Rightarrow> decimal \<Rightarrow> int" where
  "aligned e d = coef d * 10 ^ nat (expo d - e)"

definition dec_add :: "decimal \<Rightarrow> decimal \<Rightarrow> decimal" where
  "dec_add a b =
     (let e = min (expo a) (expo b)
      in dec_fix (Dec (aligned e a + aligned e b) e))"

definition dec_neg :: "decimal \<Rightarrow> decimal" where
  "dec_neg a = Dec (- coef a) (expo a)"

text \<open>\<^verbatim>\<open>Decimal.__sub__\<close> is \<^verbatim>\<open>self.__add__(other.copy_negate())\<close>.\<close>

definition dec_sub :: "decimal \<Rightarrow> decimal \<Rightarrow> decimal" where
  "dec_sub a b = dec_add a (dec_neg b)"

definition dec_mul :: "decimal \<Rightarrow> decimal \<Rightarrow> decimal" where
  "dec_mul a b = dec_fix (Dec (coef a * coef b) (expo a + expo b))"

text \<open>Comparisons are exact and numeric: they do not round.\<close>

definition dec_less :: "decimal \<Rightarrow> decimal \<Rightarrow> bool" where
  "dec_less a b = (let e = min (expo a) (expo b) in aligned e a < aligned e b)"

definition dec_eq :: "decimal \<Rightarrow> decimal \<Rightarrow> bool" where
  "dec_eq a b = (let e = min (expo a) (expo b) in aligned e a = aligned e b)"

text \<open>A Python \<^verbatim>\<open>int\<close> operand is converted exactly.\<close>

definition dec_of_int :: "int \<Rightarrow> decimal" where
  "dec_of_int n = Dec n 0"

definition dec_le :: "decimal \<Rightarrow> decimal \<Rightarrow> bool" where
  "dec_le a b = (\<not> dec_less b a)"


section \<open>Price snapshots and price histories (mode_config.py)\<close>

text \<open>
  The exceptions the modelled code can raise. \<open>NotEnoughCash\<close>, \<open>WrongAssetName\<close>,
  \<open>NotEnoughAsset\<close> and \<open>StopGameException\<close> are the simulator's own classes; the
  others are Python's.
\<close>

datatype exn =
    NotEnoughCash
  | WrongAssetName
  | NotEnoughAsset
  | StopGameException
  | StopIteration
  | TypeError
  | OverflowError

record AssetPrice =
  BTC :: decimal
  ETH :: decimal
  BNB :: decimal
  SOL :: decimal
  MKR :: decimal
  XPR :: decimal
  ADA :: decimal

text \<open>
  \<^verbatim>\<open>AssetPrice.__dataclass_fields__\<close>: the field names in declaration order, each with
  its accessor.
\<close>

definition dataclass_fields :: "(string \<times> (AssetPrice \<Rightarrow> decimal)) list" where
  "dataclass_fields =
     [(''BTC'', BTC), (''ETH'', ETH), (''BNB'', BNB), (''SOL'', SOL),
      (''MKR'', MKR), (''XPR'', XPR), (''ADA'', ADA)]"

definition tracked :: "string list" where
  "tracked = map fst dataclass_fields"

text \<open>
  \<^verbatim>\<open>getattr(prices, asset)\<close>. A field name gives its price and an unknown name raises
  \<^verbatim>\<open>AttributeError\<close>. Every Python object also answers to names such as
  \<^verbatim>\<open>__class__\<close> or \<^verbatim>\<open>__doc__\<close>, whose values are not prices; which names these are
  depends on the interpreter, so their list \<open>others\<close> is a parameter.
\<close>

datatype attr = Price decimal | NonPrice | NoAttr

definition getattr_price :: "string list \<Rightarrow> AssetPrice \<Rightarrow> string \<Rightarrow> attr" where
  "getattr_price others prices asset =
     (case map_of dataclass_fields asset of
        Some f \<Rightarrow> Price (f prices)
      | None \<Rightarrow> if asset \<in> set others then NonPrice else NoAttr)"

text \<open>
  A date is its proleptic Gregorian ordinal (\<^verbatim>\<open>date.toordinal()\<close>); the last date
  Python represents is 9999-12-31. \<open>date_add d n\<close> is \<^verbatim>\<open>d + timedelta(days=n)\<close>.
\<close>

type_synonym date = int




text \<open>
  An \<^verbatim>\<open>Iterator[tuple[date, AssetPrice]]\<close>: a step function and its internal state.
  \<open>pull\<close> is Python's \<^verbatim>\<open>next(it)\<close>: it yields a pair or raises, and leaves the
  iterator in its new state.
\<close>

type_synonym item = "date \<times> AssetPrice"

datatype 'it iterator = Iterator (step: "'it \<Rightarrow> (exn + item) \<times> 'it") (state: 'it)

definition pull :: "'it iterator \<Rightarrow> (exn + item) \<times> 'it iterator" where
  "pull it = (case step it (state it) of (r, st) \<Rightarrow> (r, Iterator (step it) st))"



text \<open>A bounded source: an iterator over a given finite list of pairs.\<close>

fun list_step :: "item list \<Rightarrow> (exn + item) \<times> item list" where
  "list_step [] = (Inl StopIteration, [])"
| "list_step (x # xs) = (Inr x, xs)"

definition iter_list :: "item list \<Rightarrow> item list iterator" where
  "iter_list xs = Iterator list_step xs"

subsection \<open>RandomAssetPriceHistory\<close>




definition base_asset_price :: AssetPrice where
  "base_asset_price =
     \<lparr>BTC = Dec 20000 0, ETH = Dec 1500 0, BNB = Dec 300 0, SOL = Dec 25 0,
      MKR = Dec 1200 0, XPR = Dec 5 (- 1), ADA = Dec 5 (- 1)\<rparr>"









section \<open>The portfolio simulator (trading_simulator.py)\<close>

text \<open>
  \<open>assets\<close> is a \<^verbatim>\<open>defaultdict(int)\<close>: a key may be absent, reading an absent key with
  \<^verbatim>\<open>self.assets[k]\<close> gives 0 and inserts the key, and \<^verbatim>\<open>k in self.assets\<close> does not
  insert. The attributes \<^verbatim>\<open>history\<close> and \<^verbatim>\<open>logo\<close> are not kept: the first is only used
  to make \<open>days\<close>, the second belongs to the text interface, and reading its file is
  taken to succeed.
\<close>

record 'it PortfolioSimulator =
  days :: "'it iterator"
  cash :: decimal
  assets :: "string \<rightharpoonup> int"
  day_count :: int
  current_date :: date
  current_prices :: AssetPrice
  initial_value :: decimal

definition defaultdict_get :: "(string \<rightharpoonup> int) \<Rightarrow> string \<Rightarrow> int \<times> (string \<rightharpoonup> int)" where
  "defaultdict_get m k = (case m k of None \<Rightarrow> (0, m(k \<mapsto> 0)) | Some v \<Rightarrow> (v, m))"

text \<open>The quantity held of an asset, zero for an absent key.\<close>

definition holding :: "'it PortfolioSimulator \<Rightarrow> string \<Rightarrow> int" where
  "holding s asset = (case assets s asset of None \<Rightarrow> 0 | Some q \<Rightarrow> q)"

text \<open>
  The list comprehension of \<^verbatim>\<open>asset_values\<close> over the fields: each field is read
  from the dictionary (and so inserted), and listed when its quantity is not zero.
\<close>

fun asset_values_from ::
  "AssetPrice \<Rightarrow> (string \<times> (AssetPrice \<Rightarrow> decimal)) list \<Rightarrow> (string \<rightharpoonup> int)
     \<Rightarrow> (string \<times> int \<times> decimal) list \<times> (string \<rightharpoonup> int)" where
  "asset_values_from prices [] m = ([], m)"
| "asset_values_from prices ((asset, f) # fs) m =
     (case defaultdict_get m asset of (quantity, m1) \<Rightarrow>
        (case asset_values_from prices fs m1 of (rest, m2) \<Rightarrow>
           ((if quantity \<noteq> 0
             then [(asset, quantity, dec_mul (f prices) (dec_of_int quantity))]
             else []) @ rest, m2)))"

text \<open>\<^verbatim>\<open>sum(...)\<close> starts from the integer 0 and adds the elements from the left.\<close>

definition py_sum :: "decimal list \<Rightarrow> decimal" where
  "py_sum xs = foldl dec_add (dec_of_int 0) xs"

text \<open>
  The body of the \<^verbatim>\<open>value\<close> property as a function of the three attributes it reads;
  it returns the dictionary too, since \<^verbatim>\<open>asset_values\<close> inserts keys.
\<close>

definition value_from ::
  "decimal \<Rightarrow> AssetPrice \<Rightarrow> (string \<rightharpoonup> int) \<Rightarrow> decimal \<times> (string \<rightharpoonup> int)" where
  "value_from c prices m =
     (case asset_values_from prices dataclass_fields m of (vals, m') \<Rightarrow>
        (dec_add c (py_sum (map (\<lambda>(_, _, price). price) vals)), m'))"

definition asset_values ::
  "'it PortfolioSimulator \<Rightarrow> (string \<times> int \<times> decimal) list \<times> 'it PortfolioSimulator" where
  "asset_values s =
     (case asset_values_from (current_prices s) dataclass_fields (assets s) of
        (vals, m') \<Rightarrow> (vals, s\<lparr>assets := m'\<rparr>))"

definition value_prop :: "'it PortfolioSimulator \<Rightarrow> decimal \<times> 'it PortfolioSimulator" where
  "value_prop s =
     (case value_from (cash s) (current_prices s) (assets s) of
        (v, m') \<Rightarrow> (v, s\<lparr>assets := m'\<rparr>))"

definition profit :: "'it PortfolioSimulator \<Rightarrow> decimal \<times> 'it PortfolioSimulator" where
  "profit s = (case value_prop s of (v, s') \<Rightarrow> (dec_sub v (initial_value s'), s'))"

text \<open>
  \<^verbatim>\<open>__post_init__\<close>, from the constructor's arguments. The call of \<^verbatim>\<open>next_day\<close> is
  written out, because the object has no current prices before it; \<open>history\<close> is the
  iterator \<^verbatim>\<open>iter(self.history)\<close>. A failed construction leaves no object.
\<close>

definition post_init ::
  "'it iterator \<Rightarrow> decimal \<Rightarrow> (string \<rightharpoonup> int) \<Rightarrow> int \<Rightarrow> exn + 'it PortfolioSimulator" where
  "post_init history cash0 assets0 day_count0 =
     (if dec_less cash0 (dec_of_int 0) then Inl NotEnoughCash
      else case pull history of
             (Inl e, it) \<Rightarrow> Inl e
           | (Inr (d, prices), it) \<Rightarrow>
               (case value_from cash0 prices assets0 of (v, m) \<Rightarrow>
                  Inr \<lparr>days = it, cash = cash0, assets = m, day_count = day_count0 + 1,
                       current_date = d, current_prices = prices, initial_value = v\<rparr>))"

text \<open>The constructor with the defaults of the dataclass: no assets, day count 0.\<close>

definition create :: "'it iterator \<Rightarrow> decimal \<Rightarrow> exn + 'it PortfolioSimulator" where
  "create history cash0 = post_init history cash0 Map.empty 0"

text \<open>
  The methods return the exception raised, if any, and the state of the object at
  that moment.
\<close>

definition next_day :: "'it PortfolioSimulator \<Rightarrow> exn option \<times> 'it PortfolioSimulator" where
  "next_day s =
     (case pull (days s) of
        (Inl e, it) \<Rightarrow> (Some e, s\<lparr>days := it\<rparr>)
      | (Inr (d, prices), it) \<Rightarrow>
          (None, s\<lparr>days := it, current_date := d, current_prices := prices,
                   day_count := day_count s + 1\<rparr>))"

text \<open>
  Choice 3 of \<^verbatim>\<open>user_action\<close>: the day is advanced, and the end of the source ends the
  game.
\<close>

definition user_action_3 :: "'it PortfolioSimulator \<Rightarrow> exn option \<times> 'it PortfolioSimulator" where
  "user_action_3 s =
     (case next_day s of
        (Some StopIteration, s') \<Rightarrow> (Some StopGameException, s')
      | r \<Rightarrow> r)"

definition buy ::
  "string list \<Rightarrow> 'it PortfolioSimulator \<Rightarrow> string \<Rightarrow> int
     \<Rightarrow> exn option \<times> 'it PortfolioSimulator" where
  "buy others s asset amount =
     (case getattr_price others (current_prices s) asset of
        NoAttr \<Rightarrow> (Some WrongAssetName, s)
      | NonPrice \<Rightarrow> (Some TypeError, s)
      | Price price \<Rightarrow>
          (let cost = dec_mul price (dec_of_int amount)
           in if dec_less (cash s) cost then (Some NotEnoughCash, s)
              else (let s1 = s\<lparr>cash := dec_sub (cash s) cost\<rparr>;
                        (q, m) = defaultdict_get (assets s1) asset
                    in (None, s1\<lparr>assets := m(asset \<mapsto> q + amount)\<rparr>))))"

definition sell ::
  "string list \<Rightarrow> 'it PortfolioSimulator \<Rightarrow> string \<Rightarrow> int
     \<Rightarrow> exn option \<times> 'it PortfolioSimulator" where
  "sell others s asset amount =
     (case assets s asset of
        None \<Rightarrow> (Some WrongAssetName, s)
      | Some current_quantity \<Rightarrow>
          if current_quantity < amount then (Some NotEnoughAsset, s)
          else (case getattr_price others (current_prices s) asset of
                  NoAttr \<Rightarrow> (Some WrongAssetName, s)
                | NonPrice \<Rightarrow> (Some TypeError, s)
                | Price price \<Rightarrow>
                    (let s1 = s\<lparr>cash := dec_add (cash s) (dec_mul price (dec_of_int amount))\<rparr>;
                         (q, m) = defaultdict_get (assets s1) asset
                     in (None, s1\<lparr>assets := m(asset \<mapsto> q - amount)\<rparr>))))"

text \<open>
  What the driver can ask of the simulator, and the states it goes through: an
  exception is reported and the run continues from the state it left.
\<close>

datatype action = Buy string int | Sell string int | NextDay

fun perform ::
  "string list \<Rightarrow> 'it PortfolioSimulator \<Rightarrow> action \<Rightarrow> exn option \<times> 'it PortfolioSimulator" where
  "perform others s (Buy asset amount) = buy others s asset amount"
| "perform others s (Sell asset amount) = sell others s asset amount"
| "perform others s NextDay = next_day s"




text \<open>
  The states a simulator made by \<open>create\<close> can be in: after its construction, after
  any method, and after reading a property.
\<close>

inductive reachable :: "string list \<Rightarrow> 'it PortfolioSimulator \<Rightarrow> bool" for others where
  created: "create history cash0 = Inr s \<Longrightarrow> reachable others s"
| performed: "reachable others s \<Longrightarrow> reachable others (snd (perform others s a))"
| read_asset_values: "reachable others s \<Longrightarrow> reachable others (snd (asset_values s))"
| read_value: "reachable others s \<Longrightarrow> reachable others (snd (value_prop s))"
| read_profit: "reachable others s \<Longrightarrow> reachable others (snd (profit s))"


text \<open>
  A bounded source of two days, used in the examples: the base prices on
  2026-11-04, and the same prices with BTC at 25000 on the day after.
\<close>

definition two_days :: "item list iterator" where
  "two_days =
     iter_list [(739924, base_asset_price),
                (739925, base_asset_price\<lparr>BTC := Dec 25000 0\<rparr>)]"


text \<open>The price of a tracked symbol in the current snapshot.\<close>

definition price_of :: "'it PortfolioSimulator \<Rightarrow> string \<Rightarrow> decimal option" where
  "price_of s asset = map_option (\<lambda>f. f (current_prices s)) (map_of dataclass_fields asset)"

text \<open>
  Two states used in the examples: the simulator made from \<open>two_days\<close> with a cash of
  100000, and that simulator after buying two BTC.
\<close>

definition day_one :: "item list PortfolioSimulator" where
  "day_one = projr (create two_days (Dec 100000 0))"

definition bought_two :: "item list PortfolioSimulator" where
  "bought_two = snd (buy [] day_one ''BTC'' 2)"

text \<open>
  When an operation does not round: the coefficient of a decimal (as it is, or written
  at a smaller exponent) has at most \<open>prec\<close> digits; the exact product or sum of two
  decimals has at most \<open>prec\<close> digits.
\<close>

definition fits :: "decimal \<Rightarrow> bool" where
  "fits d = (ndigits \<bar>coef d\<bar> \<le> prec)"

definition fits_at :: "int \<Rightarrow> decimal \<Rightarrow> bool" where
  "fits_at e d = (ndigits \<bar>aligned e d\<bar> \<le> prec)"

definition mul_exact :: "decimal \<Rightarrow> decimal \<Rightarrow> bool" where
  "mul_exact a b = (ndigits \<bar>coef a * coef b\<bar> \<le> prec)"

definition add_exact :: "decimal \<Rightarrow> decimal \<Rightarrow> bool" where
  "add_exact a b =
     (let e = min (expo a) (expo b) in ndigits \<bar>aligned e a + aligned e b\<bar> \<le> prec)"

text \<open>
  Simulators made from \<open>two_days\<close> with a cash of 28 digits, and with two of 29 digits.
\<close>

definition rich :: "item list PortfolioSimulator" where
  "rich = projr (create two_days (Dec 1000000000000000000000000001 0))"

definition richer :: "item list PortfolioSimulator" where
  "richer = projr (create two_days (Dec 10000000000000000000000000000 0))"

definition richest :: "item list PortfolioSimulator" where
  "richest = projr (create two_days (Dec 10000000000000000000000000001 0))"



section \<open>Properties of the decimal arithmetic\<close>

lemma ndigits_pos: "0 < ndigits n"
  by (subst ndigits.simps) simp

lemma ndigits_mono: "a \<le> b \<Longrightarrow> ndigits a \<le> ndigits b"
proof (induction b arbitrary: a rule: ndigits.induct)
  case (1 n)
  show ?case
  proof (cases "n < 10")
    case True
    with "1.prems" show ?thesis by (simp add: ndigits.simps [of a] ndigits.simps [of n])
  next
    case False
    show ?thesis
    proof (cases "a < 10")
      case True
      with False show ?thesis by (simp add: ndigits.simps [of a] ndigits.simps [of n])
    next
      case a: False
      from "1.prems" have "a div 10 \<le> n div 10" by (simp add: zdiv_mono1)
      with "1.IH" [OF False] have "ndigits (a div 10) \<le> ndigits (n div 10)" by blast
      with a False show ?thesis by (simp add: ndigits.simps [of a] ndigits.simps [of n])
    qed
  qed
qed

lemma round_half_even_nonneg: "0 \<le> n \<Longrightarrow> 0 \<le> round_half_even n k"
  by (simp add: round_half_even_def Let_def pos_imp_zdiv_nonneg_iff)

lemma dec_fix_nonneg: "0 \<le> coef d \<Longrightarrow> 0 \<le> coef (dec_fix d)"
proof -
  assume c: "0 \<le> coef d"
  have "0 \<le> round_half_even \<bar>coef d\<bar> k" for k
    by (rule round_half_even_nonneg) simp
  moreover have "0 \<le> round_half_even \<bar>coef d\<bar> k div 10" for k
    using round_half_even_nonneg [of "\<bar>coef d\<bar>" k] by (simp add: pos_imp_zdiv_nonneg_iff)
  ultimately show ?thesis
    using c by (simp add: dec_fix_def Let_def sgn_if)
qed

lemma dec_fix_exact: "ndigits \<bar>coef d\<bar> \<le> prec \<Longrightarrow> dec_fix d = d"
  by (simp add: dec_fix_def Let_def)

lemma dec_le_zero_iff: "dec_le (dec_of_int 0) c = (0 \<le> coef c)"
  by (simp add: dec_le_def dec_less_def dec_of_int_def aligned_def Let_def mult_less_0_iff not_less)

lemma dec_less_zero_iff: "dec_less c (dec_of_int 0) = (coef c < 0)"
  by (simp add: dec_less_def dec_of_int_def aligned_def Let_def mult_less_0_iff)

lemma aligned_neg: "aligned e (dec_neg b) = - aligned e b"
  by (simp add: aligned_def dec_neg_def)

lemma dec_sub_coef:
  "dec_sub a b = dec_fix (Dec (aligned (min (expo a) (expo b)) a - aligned (min (expo a) (expo b)) b) (min (expo a) (expo b)))"
  by (simp add: dec_sub_def dec_add_def Let_def aligned_neg) (simp add: dec_neg_def)


lemma aligned_nonneg: "0 \<le> coef a \<Longrightarrow> 0 \<le> aligned e a"
  by (simp add: aligned_def)


lemma dec_mul_nonneg: "0 \<le> coef a \<Longrightarrow> 0 \<le> coef b \<Longrightarrow> 0 \<le> coef (dec_mul a b)"
  by (simp add: dec_mul_def dec_fix_nonneg)


section \<open>The simulator keeps cash and holdings non-negative\<close>

lemma map_of_fields_tracked: "(map_of dataclass_fields a \<noteq> None) = (a \<in> set tracked)"
  by (simp add: tracked_def map_of_eq_None_iff)



lemma coef_dec_of_int: "coef (dec_of_int n) = n"
  by (simp add: dec_of_int_def)




lemma snd_asset_values_from_Cons:
  "snd (asset_values_from p ((a, f) # fs) m) = snd (asset_values_from p fs (snd (defaultdict_get m a)))"
  by (simp split: prod.splits)

lemma snd_defaultdict_get:
  "snd (defaultdict_get m a) = m(a \<mapsto> (case m a of None \<Rightarrow> 0 | Some q \<Rightarrow> q))"
  by (auto simp: defaultdict_get_def split: option.splits)

lemma snd_asset_values_from:
  "snd (asset_values_from p fs m) =
     (\<lambda>k. if k \<in> fst ` set fs then Some (case m k of None \<Rightarrow> 0 | Some q \<Rightarrow> q) else m k)"
proof (induction fs arbitrary: m)
  case Nil
  show ?case by simp
next
  case (Cons x fs)
  obtain a f where x: "x = (a, f)" by (cases x)
  show ?case
    unfolding x snd_asset_values_from_Cons Cons.IH snd_defaultdict_get
    by (rule ext) auto
qed

lemma fst_set_fields: "fst ` set dataclass_fields = set tracked"
  by (simp add: tracked_def)

lemma snd_asset_values_from_empty:
  "snd (asset_values_from p dataclass_fields Map.empty) =
     (\<lambda>k. if k \<in> set tracked then Some 0 else None)"
  by (rule ext) (simp add: snd_asset_values_from fst_set_fields)

lemma fst_asset_values_from_zero:
  "\<forall>k. m k = None \<or> m k = Some 0 \<Longrightarrow> fst (asset_values_from p fs m) = []"
proof (induction fs arbitrary: m)
  case Nil
  show ?case by simp
next
  case (Cons x fs)
  obtain a f where x: "x = (a, f)" by (cases x)
  from Cons.prems have ma: "m a = None \<or> m a = Some 0" by blast
  then have q: "fst (defaultdict_get m a) = 0"
    by (auto simp: defaultdict_get_def)
  have "\<forall>k. snd (defaultdict_get m a) k = None \<or> snd (defaultdict_get m a) k = Some 0"
  proof (cases "m a")
    case None
    with Cons.prems show ?thesis by (simp add: defaultdict_get_def)
  next
    case (Some v)
    with Cons.prems show ?thesis by (simp add: defaultdict_get_def)
  qed
  from Cons.IH [OF this] q show ?case
    by (simp add: x case_prod_beta)
qed

lemma value_from_empty:
  "value_from c p Map.empty = (dec_add c (dec_of_int 0), (\<lambda>k. if k \<in> set tracked then Some 0 else None))"
proof -
  obtain vals m where av: "asset_values_from p dataclass_fields Map.empty = (vals, m)"
    by (cases "asset_values_from p dataclass_fields Map.empty")
  from fst_asset_values_from_zero [of Map.empty p dataclass_fields] av have "vals = []"
    by simp
  moreover from snd_asset_values_from_empty [of p] av
  have "m = (\<lambda>k. if k \<in> set tracked then Some 0 else None)"
    by simp
  ultimately show ?thesis
    using av by (simp add: value_from_def py_sum_def)
qed

lemma create_eq:
  "create history c =
     (if dec_less c (dec_of_int 0) then Inl NotEnoughCash
      else case pull history of
             (Inl e, it) \<Rightarrow> Inl e
           | (Inr (d, prices), it) \<Rightarrow>
               Inr \<lparr>days = it, cash = c, assets = (\<lambda>k. if k \<in> set tracked then Some 0 else None),
                    day_count = 1, current_date = d, current_prices = prices,
                    initial_value = dec_add c (dec_of_int 0)\<rparr>)"
  by (simp add: create_def post_init_def value_from_empty split: prod.splits sum.splits)




lemma next_day_frame:
  "cash (snd (next_day s)) = cash s"
  "assets (snd (next_day s)) = assets s"
  "initial_value (snd (next_day s)) = initial_value s"
  by (simp_all add: next_day_def split: prod.splits sum.splits)

lemma pull_iter_list:
  "pull (iter_list (x # xs)) = (Inr x, iter_list xs)"
  "pull (iter_list []) = (Inl StopIteration, iter_list [])"
  by (simp_all add: pull_def iter_list_def)




section \<open>Evaluating concrete runs\<close>

lemmas dec_eval = dec_sub_def dec_mul_def dec_add_def dec_fix_def dec_neg_def dec_of_int_def aligned_def
  prec_def round_half_even_def ndigits.simps Let_def dec_less_def dec_eq_def dec_le_def

lemma getattr_price_tracked:
  "getattr_price others p ''BTC'' = Price (BTC p)"
  "getattr_price others p ''ETH'' = Price (ETH p)"
  "getattr_price others p ''BNB'' = Price (BNB p)"
  "getattr_price others p ''SOL'' = Price (SOL p)"
  "getattr_price others p ''MKR'' = Price (MKR p)"
  "getattr_price others p ''XPR'' = Price (XPR p)"
  "getattr_price others p ''ADA'' = Price (ADA p)"
  by (simp_all add: getattr_price_def dataclass_fields_def)


section \<open>Buying and selling\<close>

lemma price_of_None: "(price_of s a = None) = (a \<notin> set tracked)"
  by (simp add: price_of_def map_of_eq_None_iff tracked_def)

lemma getattr_price_eq:
  "getattr_price others (current_prices s) a =
     (case price_of s a of Some pr \<Rightarrow> Price pr | None \<Rightarrow> if a \<in> set others then NonPrice else NoAttr)"
  by (simp add: getattr_price_def price_of_def split: option.splits)

lemma defaultdict_get_eq:
  "defaultdict_get m k = (case m k of None \<Rightarrow> 0 | Some q \<Rightarrow> q, m(k \<mapsto> (case m k of None \<Rightarrow> 0 | Some q \<Rightarrow> q)))"
  by (auto simp: defaultdict_get_def split: option.splits)

lemma buy_eq:
  "buy others s a q =
     (case price_of s a of
        None \<Rightarrow> (Some (if a \<in> set others then TypeError else WrongAssetName), s)
      | Some pr \<Rightarrow>
          if dec_less (cash s) (dec_mul pr (dec_of_int q)) then (Some NotEnoughCash, s)
          else (None, s\<lparr>cash := dec_sub (cash s) (dec_mul pr (dec_of_int q)),
                         assets := (assets s)(a \<mapsto> holding s a + q)\<rparr>))"
  by (simp add: buy_def getattr_price_eq defaultdict_get_eq holding_def Let_def split: option.splits)

lemma sell_eq:
  "sell others s a q =
     (case assets s a of
        None \<Rightarrow> (Some WrongAssetName, s)
      | Some h \<Rightarrow>
          if h < q then (Some NotEnoughAsset, s)
          else (case price_of s a of
                  None \<Rightarrow> (Some (if a \<in> set others then TypeError else WrongAssetName), s)
                | Some pr \<Rightarrow>
                    (None, s\<lparr>cash := dec_add (cash s) (dec_mul pr (dec_of_int q)),
                             assets := (assets s)(a \<mapsto> h - q)\<rparr>)))"
  by (simp add: sell_def getattr_price_eq defaultdict_get_eq holding_def Let_def split: option.splits)

lemma price_of_tracked: "price_of s a = Some pr \<Longrightarrow> a \<in> set tracked"
  using price_of_None [of s a] by auto

lemma dom_buy: "dom (assets s) = set tracked \<Longrightarrow> dom (assets (snd (buy others s a q))) = set tracked"
  by (auto simp: buy_eq split: option.splits if_splits dest: price_of_tracked)

lemma dom_sell: "dom (assets s) = set tracked \<Longrightarrow> dom (assets (snd (sell others s a q))) = set tracked"
  by (auto simp: sell_eq split: option.splits if_splits)

lemma dom_value_from:
  "dom m = set tracked \<Longrightarrow> dom (snd (value_from c p m)) = set tracked"
  using snd_asset_values_from [of p dataclass_fields m]
  by (auto simp: value_from_def case_prod_beta fst_set_fields split: if_splits)

lemma snd_value_from: "snd (value_from c p m) = snd (asset_values_from p dataclass_fields m)"
  by (simp add: value_from_def case_prod_beta)

lemma dom_asset_values_fields:
  "dom m = set tracked \<Longrightarrow> dom (snd (asset_values_from p dataclass_fields m)) = set tracked"
  by (auto simp: snd_asset_values_from fst_set_fields split: if_splits)

lemma reachable_dom: "reachable others s \<Longrightarrow> dom (assets s) = set tracked"
proof (induction rule: reachable.induct)
  case (created history cash0 s)
  then show ?case
    by (auto simp: create_eq split: if_splits prod.splits sum.splits)
next
  case (performed s a)
  then show ?case
    by (cases a) (simp_all add: dom_buy dom_sell next_day_frame)
next
  case (read_asset_values s)
  then show ?case by (simp add: asset_values_def case_prod_beta dom_asset_values_fields)
next
  case (read_value s)
  then show ?case
    by (simp add: value_prop_def case_prod_beta snd_value_from dom_asset_values_fields)
next
  case (read_profit s)
  then show ?case
    by (simp add: profit_def value_prop_def case_prod_beta snd_value_from dom_asset_values_fields)
qed


lemma create_two_days: "create two_days (Dec 100000 0) = Inr day_one"
  by (simp add: day_one_def create_eq two_days_def pull_iter_list dec_less_zero_iff)

lemma day_one_fields:
  "cash day_one = Dec 100000 0"
  "current_prices day_one = base_asset_price"
  "assets day_one = (\<lambda>k. if k \<in> set tracked then Some 0 else None)"
  "initial_value day_one = Dec 100000 0"
  "day_count day_one = 1"
  by (simp_all add: day_one_def create_eq two_days_def pull_iter_list dec_less_zero_iff dec_eval)

lemma day_one_price: "price_of day_one ''BTC'' = Some (Dec 20000 0)"
  "price_of day_one ''XPR'' = Some (Dec 5 (- 1))"
  "price_of day_one ''DOGE'' = None"
  by (simp_all add: price_of_def day_one_fields dataclass_fields_def base_asset_price_def)

lemma day_one_holding: "holding day_one a = 0"
  by (simp add: holding_def day_one_fields)

lemma tracked_eval: "''BTC'' \<in> set tracked" "''XPR'' \<in> set tracked" "''DOGE'' \<notin> set tracked"
  by (simp_all add: tracked_def dataclass_fields_def)


lemma bought_two_eq:
  "bought_two = day_one\<lparr>cash := Dec 60000 0, assets := (assets day_one)(''BTC'' \<mapsto> 2)\<rparr>"
  by (simp add: bought_two_def buy_eq day_one_price day_one_fields holding_def tracked_eval dec_eval)


text \<open>
  Claim C2, as the code has it. \<open>buy\<close> does not look at the sign of the quantity. A
  symbol that is no attribute of the snapshot fails with \<open>WrongAssetName\<close> (the
  specification's UnknownAsset). For a tracked symbol the cost is price times quantity
  in decimal arithmetic; the call fails with \<open>NotEnoughCash\<close> (InsufficientCash) when
  the cash is less than the cost, and otherwise subtracts the cost from the cash and
  adds the quantity to the holding, whatever the sign of the quantity. A failed call
  leaves the state as it was. With a cash of 100 and BTC at 20000, buying one BTC fails
  with \<open>NotEnoughCash\<close>; buying DOGE fails with \<open>WrongAssetName\<close>.
\<close>

theorem buy_behaviour:
  "(asset \<notin> set tracked \<and> asset \<notin> set others \<longrightarrow>
      buy others s asset q = (Some WrongAssetName, s))
   \<and> (price_of s asset = Some pr \<and> dec_less (cash s) (dec_mul pr (dec_of_int q)) \<longrightarrow>
        buy others s asset q = (Some NotEnoughCash, s))
   \<and> (price_of s asset = Some pr \<and> \<not> dec_less (cash s) (dec_mul pr (dec_of_int q)) \<longrightarrow>
        buy others s asset q =
          (None, s\<lparr>cash := dec_sub (cash s) (dec_mul pr (dec_of_int q)),
                   assets := (assets s)(asset \<mapsto> holding s asset + q)\<rparr>))
   \<and> (fst (buy others s asset q) \<noteq> None \<longrightarrow> snd (buy others s asset q) = s)
   \<and> buy others (s\<lparr>cash := Dec 100 0, current_prices := (current_prices s)\<lparr>BTC := Dec 20000 0\<rparr>\<rparr>)
        ''BTC'' 1
      = (Some NotEnoughCash,
         s\<lparr>cash := Dec 100 0, current_prices := (current_prices s)\<lparr>BTC := Dec 20000 0\<rparr>\<rparr>)
   \<and> (''DOGE'' \<notin> set others \<longrightarrow> buy others s ''DOGE'' 1 = (Some WrongAssetName, s))"
proof (intro conjI impI)
  show "buy others s asset q = (Some WrongAssetName, s)"
    if "asset \<notin> set tracked \<and> asset \<notin> set others"
    using that price_of_None [of s asset] by (simp add: buy_eq)
  show "buy others s asset q = (Some NotEnoughCash, s)"
    if "price_of s asset = Some pr \<and> dec_less (cash s) (dec_mul pr (dec_of_int q))"
    using that by (simp add: buy_eq)
  show "buy others s asset q =
          (None, s\<lparr>cash := dec_sub (cash s) (dec_mul pr (dec_of_int q)),
                   assets := (assets s)(asset \<mapsto> holding s asset + q)\<rparr>)"
    if "price_of s asset = Some pr \<and> \<not> dec_less (cash s) (dec_mul pr (dec_of_int q))"
    using that by (simp add: buy_eq)
  show "snd (buy others s asset q) = s" if "fst (buy others s asset q) \<noteq> None"
    using that by (simp add: buy_eq split: option.splits if_splits)
  show "buy others (s\<lparr>cash := Dec 100 0, current_prices := (current_prices s)\<lparr>BTC := Dec 20000 0\<rparr>\<rparr>)
        ''BTC'' 1
      = (Some NotEnoughCash,
         s\<lparr>cash := Dec 100 0, current_prices := (current_prices s)\<lparr>BTC := Dec 20000 0\<rparr>\<rparr>)"
    by (simp add: buy_eq price_of_def dataclass_fields_def dec_eval)
  show "buy others s ''DOGE'' 1 = (Some WrongAssetName, s)" if "''DOGE'' \<notin> set others"
    using that by (simp add: buy_eq price_of_def dataclass_fields_def)
qed


text \<open>The theorem at \<open>day_one\<close>: an unknown symbol, too little cash, and a purchase.\<close>

theorem buy_behaviour_witness:
  "buy [] day_one ''DOGE'' 1 = (Some WrongAssetName, day_one)
   \<and> buy [] day_one ''BTC'' 6 = (Some NotEnoughCash, day_one)
   \<and> snd (buy [] day_one ''BTC'' 6) = day_one
   \<and> buy [] day_one ''BTC'' 2
       = (None, day_one\<lparr>cash := Dec 60000 0, assets := (assets day_one)(''BTC'' \<mapsto> 2)\<rparr>)"
proof -
  have less: "dec_less (cash day_one) (dec_mul (Dec 20000 0) (dec_of_int 6))"
    and enough: "\<not> dec_less (cash day_one) (dec_mul (Dec 20000 0) (dec_of_int 2))"
    and diff: "dec_sub (cash day_one) (dec_mul (Dec 20000 0) (dec_of_int 2)) = Dec 60000 0"
    by (simp_all add: day_one_fields dec_eval)
  have unknown: "''DOGE'' \<notin> set tracked \<and> ''DOGE'' \<notin> set []"
    by (simp add: tracked_eval)
  from buy_behaviour [where asset = "''DOGE''" and others = "[]" and s = day_one and q = 1] unknown
  have 1: "buy [] day_one ''DOGE'' 1 = (Some WrongAssetName, day_one)"
    by blast
  from buy_behaviour [where asset = "''BTC''" and others = "[]" and s = day_one and pr = "Dec 20000 0" and q = 6] day_one_price(1) less
  have 2: "buy [] day_one ''BTC'' 6 = (Some NotEnoughCash, day_one)"
    by blast
  then have "fst (buy [] day_one ''BTC'' 6) \<noteq> None"
    by simp
  with buy_behaviour [where asset = "''BTC''" and others = "[]" and s = day_one and pr = "Dec 20000 0" and q = 6]
  have 3: "snd (buy [] day_one ''BTC'' 6) = day_one"
    by blast
  from buy_behaviour [where asset = "''BTC''" and others = "[]" and s = day_one and pr = "Dec 20000 0" and q = 2] day_one_price(1) enough
  have 4: "buy [] day_one ''BTC'' 2
       = (None, day_one\<lparr>cash := dec_sub (cash day_one) (dec_mul (Dec 20000 0) (dec_of_int 2)),
                 assets := (assets day_one)(''BTC'' \<mapsto> holding day_one ''BTC'' + 2)\<rparr>)"
    by blast
  from 1 2 3 4 show ?thesis
    by (simp add: diff day_one_holding)
qed


text \<open>
  Claim C2 as stated asks a quantity that is not positive to fail with UnknownAsset.
  At \<open>day_one\<close> buying zero or minus one BTC succeeds; the latter raises the cash to
  120000 and leaves a holding of minus one.
\<close>

theorem buy_nonpositive_quantity_counterexample:
  "fst (buy [] day_one ''BTC'' 0) = None
   \<and> fst (buy [] day_one ''BTC'' (- 1)) = None
   \<and> cash (snd (buy [] day_one ''BTC'' (- 1))) = Dec 120000 0
   \<and> holding (snd (buy [] day_one ''BTC'' (- 1))) ''BTC'' = - 1"
  by (simp add: buy_eq day_one_price day_one_fields holding_def tracked_eval dec_eval)


text \<open>
  Claim C3. In every state that a simulator made by \<open>create\<close> can reach, \<open>sell\<close>
  fails with \<open>WrongAssetName\<close> for a symbol that is not tracked, fails with
  \<open>NotEnoughAsset\<close> (InsufficientHoldings) for a tracked symbol held in a smaller
  quantity, and otherwise succeeds, adding price times quantity to the cash in decimal
  arithmetic and subtracting the quantity from the holding. A failed call leaves the
  state as it was. A tracked symbol that was never bought is held at zero: selling a
  positive quantity of it right after the construction fails with \<open>NotEnoughAsset\<close>.
\<close>

theorem sell_behaviour:
  assumes "reachable others s"
  shows "(asset \<notin> set tracked \<longrightarrow> sell others s asset q = (Some WrongAssetName, s))
   \<and> (asset \<in> set tracked \<and> holding s asset < q \<longrightarrow>
        sell others s asset q = (Some NotEnoughAsset, s))
   \<and> (price_of s asset = Some pr \<and> \<not> holding s asset < q \<longrightarrow>
        sell others s asset q =
          (None, s\<lparr>cash := dec_add (cash s) (dec_mul pr (dec_of_int q)),
                   assets := (assets s)(asset \<mapsto> holding s asset - q)\<rparr>))
   \<and> (fst (sell others s asset q) \<noteq> None \<longrightarrow> snd (sell others s asset q) = s)
   \<and> (create history c = Inr s \<and> asset \<in> set tracked \<and> 0 < q \<longrightarrow>
        sell others s asset q = (Some NotEnoughAsset, s))"
proof -
  from reachable_dom [OF assms] have "(asset \<in> dom (assets s)) = (asset \<in> set tracked)" for asset
    by simp
  then have d: "(assets s asset = None) = (asset \<notin> set tracked)" for asset
    by (metis domIff)
  have h: "assets s asset = Some (holding s asset)" if "asset \<in> set tracked"
    using d [of asset] that by (auto simp: holding_def)
  have t: "asset \<in> set tracked" if "price_of s asset = Some pr"
    using that price_of_None [of s asset] by auto
  have z: "holding s asset = 0" if "create history c = Inr s" "asset \<in> set tracked"
    using that by (auto simp: create_eq holding_def split: if_splits prod.splits sum.splits)
  show ?thesis
  proof (intro conjI impI)
    show "sell others s asset q = (Some WrongAssetName, s)" if "asset \<notin> set tracked"
      using that d [of asset] by (simp add: sell_eq)
    show "sell others s asset q = (Some NotEnoughAsset, s)"
      if "asset \<in> set tracked \<and> holding s asset < q"
      using that h by (simp add: sell_eq)
    show "sell others s asset q =
          (None, s\<lparr>cash := dec_add (cash s) (dec_mul pr (dec_of_int q)),
                   assets := (assets s)(asset \<mapsto> holding s asset - q)\<rparr>)"
      if "price_of s asset = Some pr \<and> \<not> holding s asset < q"
      using that h t by (simp add: sell_eq)
    show "snd (sell others s asset q) = s" if "fst (sell others s asset q) \<noteq> None"
      using that by (simp add: sell_eq split: option.splits if_splits)
    show "sell others s asset q = (Some NotEnoughAsset, s)"
      if "create history c = Inr s \<and> asset \<in> set tracked \<and> 0 < q"
      using that h z by (simp add: sell_eq)
  qed
qed

text \<open>
  The theorem at \<open>day_one\<close> and at \<open>bought_two\<close>: an unknown symbol, a symbol never
  bought, more than is held, and a sale.
\<close>

theorem sell_behaviour_witness:
  "sell [] day_one ''DOGE'' 1 = (Some WrongAssetName, day_one)
   \<and> sell [] day_one ''BTC'' 1 = (Some NotEnoughAsset, day_one)
   \<and> sell [] bought_two ''BTC'' 3 = (Some NotEnoughAsset, bought_two)
   \<and> snd (sell [] bought_two ''BTC'' 3) = bought_two
   \<and> sell [] bought_two ''BTC'' 1
       = (None, bought_two\<lparr>cash := Dec 80000 0, assets := (assets bought_two)(''BTC'' \<mapsto> 1)\<rparr>)"
proof -
  have r1: "reachable [] day_one"
    by (rule reachable.created) (rule create_two_days)
  have r2: "reachable [] bought_two"
    using reachable.performed [OF r1, of "Buy ''BTC'' 2"] by (simp add: bought_two_def)
  have h2: "holding bought_two ''BTC'' = 2"
    and p2: "price_of bought_two ''BTC'' = Some (Dec 20000 0)"
    and sum: "dec_add (cash bought_two) (dec_mul (Dec 20000 0) (dec_of_int 1)) = Dec 80000 0"
    by (simp_all add: bought_two_eq holding_def price_of_def day_one_fields dataclass_fields_def
        base_asset_price_def dec_eval)
  from sell_behaviour [OF r1, where asset = "''DOGE''" and q = 1] tracked_eval(3)
  have 1: "sell [] day_one ''DOGE'' 1 = (Some WrongAssetName, day_one)"
    by blast
  from sell_behaviour [OF r1, where asset = "''BTC''" and q = 1 and history = two_days and c = "Dec 100000 0"] create_two_days tracked_eval(1)
  have 2: "sell [] day_one ''BTC'' 1 = (Some NotEnoughAsset, day_one)"
    by simp
  from sell_behaviour [OF r2, where asset = "''BTC''" and q = 3] tracked_eval(1) h2
  have 3: "sell [] bought_two ''BTC'' 3 = (Some NotEnoughAsset, bought_two)"
    by simp
  then have "fst (sell [] bought_two ''BTC'' 3) \<noteq> None"
    by simp
  with sell_behaviour [OF r2, where asset = "''BTC''" and q = 3]
  have 4: "snd (sell [] bought_two ''BTC'' 3) = bought_two"
    by blast
  from sell_behaviour [OF r2, where asset = "''BTC''" and q = 1 and pr = "Dec 20000 0"] p2 h2
  have 5: "sell [] bought_two ''BTC'' 1
       = (None, bought_two\<lparr>cash := dec_add (cash bought_two) (dec_mul (Dec 20000 0) (dec_of_int 1)),
                 assets := (assets bought_two)(''BTC'' \<mapsto> holding bought_two ''BTC'' - 1)\<rparr>)"
    by simp
  from 1 2 3 4 5 show ?thesis
    by (simp add: sum h2)
qed

section \<open>The end-to-end scenario\<close>

text \<open>
  Claim C5. The first day has BTC at 20000 and the second at 25000, whatever the other
  prices and the dates are. A simulator constructed with a cash of 100000 buys two
  BTC, which leaves 60000 in cash and a holding of 2; the day is advanced; selling one
  BTC leaves 85000 in cash and a holding of 1; the value of the portfolio is then
  110000 and the profit 10000.
\<close>

theorem end_to_end_scenario:
  "\<exists>s0 s1 s2 s3.
     create (iter_list ((d1, p1\<lparr>BTC := Dec 20000 0\<rparr>) # (d2, p2\<lparr>BTC := Dec 25000 0\<rparr>) # rest))
       (Dec 100000 0) = Inr s0
     \<and> buy others s0 ''BTC'' 2 = (None, s1)
     \<and> cash s1 = Dec 60000 0 \<and> holding s1 ''BTC'' = 2
     \<and> next_day s1 = (None, s2)
     \<and> day_count s2 = 2 \<and> BTC (current_prices s2) = Dec 25000 0
     \<and> sell others s2 ''BTC'' 1 = (None, s3)
     \<and> cash s3 = Dec 85000 0 \<and> holding s3 ''BTC'' = 1
     \<and> fst (value_prop s3) = Dec 110000 0
     \<and> fst (profit s3) = Dec 10000 0"
proof -
  let ?H = "iter_list ((d1, p1\<lparr>BTC := Dec 20000 0\<rparr>) # (d2, p2\<lparr>BTC := Dec 25000 0\<rparr>) # rest)"
  define zero :: "string \<rightharpoonup> int" where "zero = (\<lambda>k. if k \<in> set tracked then Some 0 else None)"
  define s0 where "s0 = \<lparr>days = iter_list ((d2, p2\<lparr>BTC := Dec 25000 0\<rparr>) # rest), cash = Dec 100000 0,
      assets = zero, day_count = 1, current_date = d1, current_prices = p1\<lparr>BTC := Dec 20000 0\<rparr>,
      initial_value = Dec 100000 0\<rparr>"
  define s1 where "s1 = s0\<lparr>cash := Dec 60000 0, assets := zero(''BTC'' \<mapsto> 2)\<rparr>"
  define s2 where "s2 = s1\<lparr>days := iter_list rest, current_date := d2,
      current_prices := p2\<lparr>BTC := Dec 25000 0\<rparr>, day_count := 2\<rparr>"
  define s3 where "s3 = s2\<lparr>cash := Dec 85000 0, assets := zero(''BTC'' \<mapsto> 1)\<rparr>"
  have z: "zero ''BTC'' = Some 0" "zero ''ETH'' = Some 0" "zero ''BNB'' = Some 0" "zero ''SOL'' = Some 0"
    "zero ''MKR'' = Some 0" "zero ''XPR'' = Some 0" "zero ''ADA'' = Some 0"
    by (simp_all add: zero_def tracked_def dataclass_fields_def)
  have c: "create ?H (Dec 100000 0) = Inr s0"
    by (simp add: create_eq pull_iter_list dec_less_zero_iff s0_def zero_def) (simp add: dec_eval)
  have b: "buy others s0 ''BTC'' 2 = (None, s1)"
    by (simp add: buy_def getattr_price_tracked s0_def s1_def defaultdict_get_def z dec_eval)
  have n: "next_day s1 = (None, s2)"
    by (simp add: next_day_def pull_iter_list s0_def s1_def s2_def)
  have s: "sell others s2 ''BTC'' 1 = (None, s3)"
    by (simp add: sell_def getattr_price_tracked s0_def s1_def s2_def s3_def defaultdict_get_def z dec_eval)
  have av: "asset_values_from (p2\<lparr>BTC := Dec 25000 0\<rparr>) dataclass_fields (zero(''BTC'' \<mapsto> 1))
      = ([(''BTC'', 1, Dec 25000 0)], zero(''BTC'' \<mapsto> 1))"
    by (simp add: dataclass_fields_def defaultdict_get_def z dec_eval fun_upd_idem)
  have v: "fst (value_prop s3) = Dec 110000 0"
    by (simp add: value_prop_def value_from_def av s0_def s1_def s2_def s3_def py_sum_def) (simp add: dec_eval)
  have p: "fst (profit s3) = Dec 10000 0"
    using v by (simp add: profit_def case_prod_beta)
       (simp add: value_prop_def value_from_def av s0_def s1_def s2_def s3_def dec_eval)
  show ?thesis
    using c b n s v p by (intro exI [of _ s0] exI [of _ s1] exI [of _ s2] exI [of _ s3])
      (simp add: s0_def s1_def s2_def s3_def holding_def)
qed

section \<open>Exact and rounded results\<close>

lemma aligned_self: "aligned (expo d) d = coef d"
  by (simp add: aligned_def)

lemma aligned_Dec: "aligned e (Dec c e) = c"
  by (simp add: aligned_def)

lemma dec_round_trip:
  assumes k: "0 \<le> coef k" and le: "\<not> dec_less c k"
    and fit: "ndigits \<bar>aligned (min (expo c) (expo k)) c\<bar> \<le> prec"
  shows "dec_eq (dec_add (dec_sub c k) k) c"
proof -
  define m where "m = min (expo c) (expo k)"
  define C where "C = aligned m c"
  define K where "K = aligned m k"
  have K0: "0 \<le> K" using k by (simp add: K_def aligned_nonneg)
  have CK: "K \<le> C" using le by (simp add: dec_less_def C_def K_def m_def Let_def)
  have "\<bar>C - K\<bar> \<le> \<bar>C\<bar>" using K0 CK by simp
  from ndigits_mono [OF this] fit have fitD: "ndigits \<bar>C - K\<bar> \<le> prec"
    by (simp add: C_def m_def)
  have sub: "dec_sub c k = Dec (C - K) m"
    using fitD by (simp add: dec_sub_coef C_def K_def m_def dec_fix_exact)
  have mk: "min m (expo k) = m" by (simp add: m_def)
  have fitC: "ndigits \<bar>C\<bar> \<le> prec" using fit by (simp add: C_def m_def)
  have add: "dec_add (Dec (C - K) m) k = Dec C m"
    using fitC by (simp add: dec_add_def mk aligned_Dec K_def [symmetric] dec_fix_exact)
  have mc: "min m (expo c) = m" by (simp add: m_def)
  have "dec_eq (Dec C m) c"
    by (simp add: dec_eq_def mc aligned_Dec Let_def) (simp add: C_def)
  then show ?thesis
    by (simp only: sub add)
qed

lemma ndigits_times_10: "0 < n \<Longrightarrow> ndigits (n * 10) = Suc (ndigits n)"
  by (subst ndigits.simps) simp

lemma ndigits_times_power: "0 < n \<Longrightarrow> ndigits (n * 10 ^ j) = ndigits n + j"
proof (induction j)
  case 0
  show ?case by simp
next
  case (Suc j)
  have "n * 10 ^ Suc j = (n * 10 ^ j) * 10" by simp
  moreover from Suc.prems have "0 < n * 10 ^ j" by simp
  ultimately have "ndigits (n * 10 ^ Suc j) = Suc (ndigits (n * 10 ^ j))"
    by (simp only: ndigits_times_10)
  with Suc show ?case by simp
qed

lemma dec_fix_trailing_zeros:
  assumes "ndigits \<bar>n\<bar> \<le> prec"
  shows "dec_eq (dec_fix (Dec (n * 10 ^ j) x)) (Dec n (x + int j))"
proof (cases "ndigits (\<bar>n\<bar> * 10 ^ j) \<le> prec")
  case True
  then have "dec_fix (Dec (n * 10 ^ j) x) = Dec (n * 10 ^ j) x"
    by (simp add: dec_fix_exact abs_mult)
  then show ?thesis by (simp add: dec_eq_def aligned_def Let_def)
next
  case False
  with assms have n0: "n \<noteq> 0" by (auto simp: ndigits.simps [of 0] prec_def)
  from n0 have l: "ndigits (\<bar>n\<bar> * 10 ^ j) = ndigits \<bar>n\<bar> + j"
    by (simp add: ndigits_times_power)
  define k where "k = ndigits (\<bar>n\<bar> * 10 ^ j) - prec"
  from False l assms have kj: "k \<le> j" and k0: "0 < k" and lk: "ndigits \<bar>n\<bar> + (j - k) = prec"
    by (simp_all add: k_def)
  from kj have split: "(10::int) ^ j = 10 ^ (j - k) * 10 ^ k"
    by (simp add: power_add [symmetric])
  have q: "\<bar>n\<bar> * 10 ^ j div 10 ^ k = \<bar>n\<bar> * 10 ^ (j - k)"
    by (simp add: split)
  have r: "\<bar>n\<bar> * 10 ^ j mod 10 ^ k = 0"
    by (simp add: split)
  have rnd: "round_half_even (\<bar>n\<bar> * 10 ^ j) k = \<bar>n\<bar> * 10 ^ (j - k)"
    using k0 by (simp add: round_half_even_def q r Let_def)
  from n0 lk have dig: "ndigits (\<bar>n\<bar> * 10 ^ (j - k)) = prec"
    by (simp add: ndigits_times_power)
  have sg: "sgn (n * 10 ^ j) * (\<bar>n\<bar> * 10 ^ (j - k)) = n * 10 ^ (j - k)"
    by (simp add: sgn_mult mult.assoc [symmetric] mult_sgn_abs)
  have fx: "dec_fix (Dec (n * 10 ^ j) x) = Dec (n * 10 ^ (j - k)) (x + int k)"
    using False by (simp add: dec_fix_def Let_def abs_mult k_def [symmetric] rnd dig sg)
  from kj have "min (x + int k) (x + int j) = x + int k" by simp
  moreover from kj have "nat (int j - int k) = j - k" by simp
  ultimately show ?thesis
    by (simp add: fx dec_eq_def aligned_def Let_def)
qed

lemma dec_add_zero:
  assumes "fits c"
  shows "dec_eq (dec_add c (dec_of_int 0)) c"
proof (cases "expo c \<le> 0")
  case True
  then have "min (expo c) 0 = expo c" by simp
  with assms show ?thesis
    by (simp add: dec_add_def dec_of_int_def aligned_def fits_def dec_fix_exact dec_eq_def Let_def)
next
  case False
  then have m: "min (expo c) 0 = 0" by simp
  have "dec_add c (dec_of_int 0) = dec_fix (Dec (coef c * 10 ^ nat (expo c)) 0)"
    by (simp add: dec_add_def dec_of_int_def m aligned_def)
  moreover from False have "Dec (coef c) (0 + int (nat (expo c))) = c"
    by simp
  ultimately show ?thesis
    using dec_fix_trailing_zeros [of "coef c" "nat (expo c)" 0] assms
    by (simp add: fits_def)
qed

lemma dec_mul_exact: "mul_exact a b \<Longrightarrow> dec_mul a b = Dec (coef a * coef b) (expo a + expo b)"
  by (simp add: mul_exact_def dec_mul_def dec_fix_exact)

lemma dec_add_exact:
  "add_exact a b \<Longrightarrow>
     dec_add a b = Dec (aligned (min (expo a) (expo b)) a + aligned (min (expo a) (expo b)) b)
                       (min (expo a) (expo b))"
  by (simp add: add_exact_def dec_add_def dec_fix_exact Let_def)

lemma dec_add_negative_less:
  assumes "add_exact c x" and "coef x < 0"
  shows "dec_less (dec_add c x) c"
proof -
  have "min (min (expo c) (expo x)) (expo c) = min (expo c) (expo x)" by simp
  moreover from assms(2) have "aligned (min (expo c) (expo x)) x < 0"
    by (simp add: aligned_def mult_less_0_iff)
  ultimately show ?thesis
    by (simp add: dec_add_exact [OF assms(1)] dec_less_def Let_def aligned_Dec)
qed

lemma dec_add_positive_less:
  assumes "add_exact c x" and "0 < coef x"
  shows "dec_less c (dec_add c x)"
proof -
  have "min (expo c) (min (expo c) (expo x)) = min (expo c) (expo x)" by simp
  moreover from assms(2) have "0 < aligned (min (expo c) (expo x)) x"
    by (simp add: aligned_def)
  ultimately show ?thesis
    by (simp add: dec_add_exact [OF assms(1)] dec_less_def Let_def aligned_Dec)
qed

lemma coef_dec_mul_nonpos:
  "0 \<le> coef a \<Longrightarrow> coef b \<le> 0 \<Longrightarrow> coef (dec_mul a b) \<le> 0"
proof -
  assume a: "0 \<le> coef a" and b: "coef b \<le> 0"
  have "dec_mul a b = dec_neg (dec_mul a (dec_neg b))"
    by (simp add: dec_mul_def dec_neg_def dec_fix_def Let_def)
  moreover from a b have "0 \<le> coef (dec_mul a (dec_neg b))"
    by (simp add: dec_mul_nonneg dec_neg_def)
  ultimately show ?thesis by (simp add: dec_neg_def)
qed

lemma dec_less_nonpos_nonneg: "coef a \<le> 0 \<Longrightarrow> 0 \<le> coef b \<Longrightarrow> \<not> dec_less b a"
proof -
  assume "coef a \<le> 0" "0 \<le> coef b"
  then have "aligned e a \<le> 0" "0 \<le> aligned e b" for e
    by (simp_all add: aligned_def mult_le_0_iff)
  from order_trans [OF this] show ?thesis
    by (simp add: dec_less_def Let_def not_less)
qed


lemma ndigits_le_Suc_iff: "(ndigits n \<le> Suc k) = (n < 10 ^ Suc k)"
proof (induction k arbitrary: n)
  case 0
  show ?case by (subst ndigits.simps) (simp add: ndigits_pos)
next
  case (Suc k)
  show ?case
  proof (cases "n < 10")
    case True
    have "(1::int) \<le> 10 ^ k" by simp
    with True have "n < 10 ^ Suc (Suc k)" by (simp only: power_Suc)
    with True show ?thesis by (simp add: ndigits.simps [of n])
  next
    case False
    have "(n div 10 < 10 ^ Suc k) = (n < 10 * 10 ^ Suc k)"
      by presburger
    with Suc [of "n div 10"] False show ?thesis
      by (simp add: ndigits.simps [of n])
  qed
qed

lemma ndigits_le_prec_iff: "(ndigits n \<le> prec) = (n < 10000000000000000000000000000)"
  using ndigits_le_Suc_iff [of n 27] by (simp add: prec_def)

lemma dec_fix_small: "\<bar>c\<bar> < 10000000000000000000000000000 \<Longrightarrow> dec_fix (Dec c e) = Dec c e"
  by (simp add: dec_fix_exact ndigits_le_prec_iff)

text \<open>A coefficient of 29 digits loses its last digit.\<close>

lemma dec_fix_29:
  assumes "\<not> \<bar>c\<bar> < 10000000000000000000000000000"
    and "\<bar>c\<bar> < 100000000000000000000000000000"
    and "round_half_even \<bar>c\<bar> 1 = m"
  shows "dec_fix (Dec c e) =
     (if m < 10000000000000000000000000000 then Dec (sgn c * m) (e + 1)
      else Dec (sgn c * (m div 10)) (e + 2))"
proof -
  from assms(1) have big: "\<not> ndigits \<bar>c\<bar> \<le> prec"
    by (simp add: ndigits_le_prec_iff)
  from assms(2) ndigits_le_Suc_iff [of "\<bar>c\<bar>" 28] have "ndigits \<bar>c\<bar> \<le> Suc prec"
    by (simp add: prec_def)
  with big have k: "ndigits \<bar>c\<bar> - prec = 1"
    by simp
  have "(prec < ndigits m) = (\<not> m < 10000000000000000000000000000)"
    using ndigits_le_prec_iff [of m] by linarith
  with big k assms(3) show ?thesis
    by (simp add: dec_fix_def Let_def)
qed

lemmas dec_small = dec_sub_def dec_mul_def dec_add_def dec_neg_def dec_of_int_def aligned_def
  Let_def dec_less_def dec_eq_def dec_le_def dec_fix_small

lemma rich_fields:
  "cash rich = Dec 1000000000000000000000000001 0"
  "current_prices rich = base_asset_price"
  "assets rich = (\<lambda>k. if k \<in> set tracked then Some 0 else None)"
  by (simp_all add: rich_def create_eq two_days_def pull_iter_list dec_less_zero_iff)

lemma richer_fields:
  "cash richer = Dec 10000000000000000000000000000 0"
  "current_prices richer = base_asset_price"
  "assets richer = (\<lambda>k. if k \<in> set tracked then Some 0 else None)"
  by (simp_all add: richer_def create_eq two_days_def pull_iter_list dec_less_zero_iff)

lemma create_richest: "create two_days (Dec 10000000000000000000000000001 0) = Inr richest"
  by (simp add: richest_def create_eq two_days_def pull_iter_list dec_less_zero_iff)

lemma richest_fields:
  "cash richest = Dec 10000000000000000000000000001 0"
  "initial_value richest = dec_add (Dec 10000000000000000000000000001 0) (dec_of_int 0)"
  by (simp_all add: richest_def create_eq two_days_def pull_iter_list dec_less_zero_iff)

lemma base_price: "price_of s ''XPR'' = Some (XPR (current_prices s))"
  "price_of s ''BTC'' = Some (BTC (current_prices s))"
  by (simp_all add: price_of_def dataclass_fields_def)

lemma rich_arith:
  "dec_mul (Dec 5 (- 1)) (dec_of_int 1) = Dec 5 (- 1)"
  "\<not> dec_less (Dec 1000000000000000000000000001 0) (Dec 5 (- 1))"
  "dec_sub (Dec 1000000000000000000000000001 0) (Dec 5 (- 1)) = Dec 1000000000000000000000000000 0"
  "dec_add (Dec 1000000000000000000000000000 0) (Dec 5 (- 1)) = Dec 1000000000000000000000000000 0"
  "\<not> dec_eq (Dec 1000000000000000000000000000 0) (Dec 1000000000000000000000000001 0)"
proof -
  have r: "dec_fix (Dec 10000000000000000000000000005 (- 1)) = Dec 1000000000000000000000000000 0"
    using dec_fix_29 [of 10000000000000000000000000005 1000000000000000000000000000 "- 1"]
    by (simp add: round_half_even_def)
  show "dec_mul (Dec 5 (- 1)) (dec_of_int 1) = Dec 5 (- 1)"
    "\<not> dec_less (Dec 1000000000000000000000000001 0) (Dec 5 (- 1))"
    "\<not> dec_eq (Dec 1000000000000000000000000000 0) (Dec 1000000000000000000000000001 0)"
    by (simp_all add: dec_small)
  show "dec_sub (Dec 1000000000000000000000000001 0) (Dec 5 (- 1)) = Dec 1000000000000000000000000000 0"
    "dec_add (Dec 1000000000000000000000000000 0) (Dec 5 (- 1)) = Dec 1000000000000000000000000000 0"
    by (simp_all add: dec_sub_def dec_add_def dec_neg_def aligned_def r)
qed


section \<open>Buying and selling back\<close>

text \<open>
  Claim C6, as the code has it. A tracked symbol is held in a non-negative quantity
  and the cash covers the cost of a positive quantity of it. Buying that quantity and
  selling it back at once, at the same prices, both succeed and restore the holding
  exactly; the cash becomes (cash - cost) + cost in decimal arithmetic. It is
  numerically the cash before whenever the price is not negative and the cash,
  written at the smaller of its own exponent and the exponent of the cost, has at most
  28 digits, since then neither operation rounds.
\<close>

theorem buy_then_sell_round_trip:
  assumes "price_of s asset = Some pr" and "0 < q" and "0 \<le> holding s asset"
    and "\<not> dec_less (cash s) (dec_mul pr (dec_of_int q))"
  shows "fst (buy others s asset q) = None
    \<and> fst (sell others (snd (buy others s asset q)) asset q) = None
    \<and> holding (snd (sell others (snd (buy others s asset q)) asset q)) asset = holding s asset
    \<and> cash (snd (sell others (snd (buy others s asset q)) asset q))
        = dec_add (dec_sub (cash s) (dec_mul pr (dec_of_int q))) (dec_mul pr (dec_of_int q))
    \<and> (0 \<le> coef pr
         \<and> fits_at (min (expo (cash s)) (expo (dec_mul pr (dec_of_int q)))) (cash s) \<longrightarrow>
       dec_eq (cash (snd (sell others (snd (buy others s asset q)) asset q))) (cash s))"
proof -
  let ?cost = "dec_mul pr (dec_of_int q)"
  let ?s1 = "s\<lparr>cash := dec_sub (cash s) ?cost, assets := (assets s)(asset \<mapsto> holding s asset + q)\<rparr>"
  have b: "buy others s asset q = (None, ?s1)"
    using assms by (simp add: buy_eq)
  have p1: "price_of ?s1 asset = Some pr"
    using assms(1) by (simp add: price_of_def)
  have s: "sell others ?s1 asset q
      = (None, ?s1\<lparr>cash := dec_add (dec_sub (cash s) ?cost) ?cost,
                   assets := (assets ?s1)(asset \<mapsto> holding s asset + q - q)\<rparr>)"
    using assms(3) by (simp add: sell_eq p1)
  have e: "dec_eq (dec_add (dec_sub (cash s) ?cost) ?cost) (cash s)"
    if "0 \<le> coef pr \<and> fits_at (min (expo (cash s)) (expo ?cost)) (cash s)"
  proof (rule dec_round_trip)
    from that assms(2) show "0 \<le> coef ?cost"
      by (simp add: dec_mul_nonneg coef_dec_of_int)
    show "\<not> dec_less (cash s) ?cost" by (rule assms(4))
    from that show "ndigits \<bar>aligned (min (expo (cash s)) (expo ?cost)) (cash s)\<bar> \<le> prec"
      by (simp add: fits_at_def)
  qed
  have b2: "snd (buy others s asset q) = ?s1" "fst (buy others s asset q) = None"
    by (simp_all add: b)
  have s2: "fst (sell others ?s1 asset q) = None"
    "cash (snd (sell others ?s1 asset q)) = dec_add (dec_sub (cash s) ?cost) ?cost"
    "holding (snd (sell others ?s1 asset q)) asset = holding s asset"
    by (simp_all add: s) (simp add: holding_def)
  show ?thesis
    unfolding b2 s2 using e by simp
qed



text \<open>The theorem at \<open>day_one\<close>, buying and selling two BTC.\<close>

theorem buy_then_sell_round_trip_witness:
  "fst (buy [] day_one ''BTC'' 2) = None
    \<and> fst (sell [] (snd (buy [] day_one ''BTC'' 2)) ''BTC'' 2) = None
    \<and> holding (snd (sell [] (snd (buy [] day_one ''BTC'' 2)) ''BTC'' 2)) ''BTC'' = holding day_one ''BTC''
    \<and> dec_eq (cash (snd (sell [] (snd (buy [] day_one ''BTC'' 2)) ''BTC'' 2))) (cash day_one)"
proof -
  have 1: "0 < (2::int)" by simp
  have 2: "0 \<le> holding day_one ''BTC''" by (simp add: day_one_holding)
  have 3: "\<not> dec_less (cash day_one) (dec_mul (Dec 20000 0) (dec_of_int 2))"
    by (simp add: day_one_fields dec_small)
  have 4: "0 \<le> coef (Dec 20000 0)
     \<and> fits_at (min (expo (cash day_one)) (expo (dec_mul (Dec 20000 0) (dec_of_int 2)))) (cash day_one)"
    by (simp add: day_one_fields fits_at_def dec_small ndigits_le_prec_iff)
  from buy_then_sell_round_trip [OF day_one_price(1) 1 2 3, of "[]"] 4 show ?thesis
    by blast
qed

text \<open>
  Claim C6 as stated promises the cash back exactly for every state. At \<open>rich\<close>, whose
  cash has 28 digits, one XPR at 0.5 is bought and sold back: both results need 29
  digits and are rounded half to even, and the cash ends one unit lower.
\<close>

theorem round_trip_drift_counterexample:
  "fst (buy [] rich ''XPR'' 1) = None
   \<and> fst (sell [] (snd (buy [] rich ''XPR'' 1)) ''XPR'' 1) = None
   \<and> cash rich = Dec 1000000000000000000000000001 0
   \<and> cash (snd (sell [] (snd (buy [] rich ''XPR'' 1)) ''XPR'' 1)) = Dec 1000000000000000000000000000 0
   \<and> \<not> dec_eq (cash (snd (sell [] (snd (buy [] rich ''XPR'' 1)) ''XPR'' 1))) (cash rich)"
proof -
  have b: "buy [] rich ''XPR'' 1
      = (None, rich\<lparr>cash := Dec 1000000000000000000000000000 0, assets := (assets rich)(''XPR'' \<mapsto> 1)\<rparr>)"
    by (simp add: buy_eq base_price rich_fields holding_def tracked_eval base_asset_price_def
        rich_arith)
  have s: "sell [] (rich\<lparr>cash := Dec 1000000000000000000000000000 0, assets := (assets rich)(''XPR'' \<mapsto> 1)\<rparr>) ''XPR'' 1
      = (None, rich\<lparr>cash := Dec 1000000000000000000000000000 0, assets := (assets rich)(''XPR'' \<mapsto> 0)\<rparr>)"
    by (simp add: sell_eq base_price rich_fields base_asset_price_def rich_arith)
  show ?thesis
    by (simp only: b s fst_conv snd_conv) (simp add: rich_fields rich_arith)
qed


section \<open>Construction\<close>

text \<open>
  Claim C7, as the code has it. The construction fails with \<open>NotEnoughCash\<close> (the
  specification's InvalidCash) when the initial cash is negative. Otherwise it pulls
  the first pair from the source and fails with the exception of the source when there
  is none, which is \<open>StopIteration\<close> (ExhaustedSource) for a source that yields nothing.
  On success the cash is the initial cash, nothing is held, the day count is 1, and
  the initial value is cash + 0 in decimal arithmetic: the cash rounded to 28
  significant digits, numerically equal to the cash when the cash has at most 28
  digits.
\<close>

theorem create_outcomes:
  "(dec_less c (dec_of_int 0) \<longrightarrow> create history c = Inl NotEnoughCash)
   \<and> (\<not> dec_less c (dec_of_int 0) \<and> fst (pull history) = Inl e \<longrightarrow> create history c = Inl e)
   \<and> (\<not> dec_less c (dec_of_int 0) \<longrightarrow> create (iter_list []) c = Inl StopIteration)
   \<and> (\<not> dec_less c (dec_of_int 0) \<and> pull history = (Inr (d, prices), it) \<longrightarrow>
        (\<exists>s. create history c = Inr s \<and> cash s = c \<and> (\<forall>asset. holding s asset = 0)
           \<and> days s = it \<and> current_date s = d \<and> current_prices s = prices
           \<and> day_count s = 1
           \<and> initial_value s = dec_add c (dec_of_int 0)
           \<and> (fits c \<longrightarrow> dec_eq (initial_value s) c)))"
proof (intro conjI impI)
  show "create history c = Inl NotEnoughCash" if "dec_less c (dec_of_int 0)"
    using that by (simp add: create_eq)
  show "create history c = Inl e" if "\<not> dec_less c (dec_of_int 0) \<and> fst (pull history) = Inl e"
    using that by (cases "pull history") (simp add: create_eq)
  show "create (iter_list []) c = Inl StopIteration" if "\<not> dec_less c (dec_of_int 0)"
    using that by (simp add: create_eq pull_iter_list)
  show "\<exists>s. create history c = Inr s \<and> cash s = c \<and> (\<forall>asset. holding s asset = 0)
           \<and> days s = it \<and> current_date s = d \<and> current_prices s = prices
           \<and> day_count s = 1
           \<and> initial_value s = dec_add c (dec_of_int 0)
           \<and> (fits c \<longrightarrow> dec_eq (initial_value s) c)"
    if "\<not> dec_less c (dec_of_int 0) \<and> pull history = (Inr (d, prices), it)"
    using that by (simp add: create_eq holding_def dec_add_zero)
qed


text \<open>
  The theorem for a negative cash, for an empty source, and for \<open>two_days\<close> with a
  cash of 100000.
\<close>

theorem create_outcomes_witness:
  "create two_days (Dec (- 1) 0) = Inl NotEnoughCash
   \<and> create (iter_list []) (Dec 100000 0) = Inl StopIteration
   \<and> (\<exists>s. create two_days (Dec 100000 0) = Inr s \<and> cash s = Dec 100000 0
         \<and> (\<forall>asset. holding s asset = 0) \<and> day_count s = 1
         \<and> dec_eq (initial_value s) (Dec 100000 0))"
proof -
  have neg: "dec_less (Dec (- 1) 0) (dec_of_int 0)"
    and pos: "\<not> dec_less (Dec 100000 0) (dec_of_int 0)"
    and fit: "fits (Dec 100000 0)"
    by (simp_all add: dec_less_zero_iff fits_def ndigits_le_prec_iff)
  have empty: "fst (pull (iter_list [])) = Inl StopIteration"
    by (simp add: pull_iter_list)
  have first: "pull two_days
      = (Inr (739924, base_asset_price), iter_list [(739925, base_asset_price\<lparr>BTC := Dec 25000 0\<rparr>)])"
    by (simp add: two_days_def pull_iter_list)
  from create_outcomes [where c = "Dec (- 1) 0" and history = two_days] neg
  have 1: "create two_days (Dec (- 1) 0) = Inl NotEnoughCash"
    by blast
  from create_outcomes [where c = "Dec 100000 0" and history = "iter_list []" and e = StopIteration]
    pos empty
  have 2: "create (iter_list []) (Dec 100000 0) = Inl StopIteration"
    by blast
  from create_outcomes [where c = "Dec 100000 0" and history = two_days and d = 739924
      and prices = base_asset_price
      and it = "iter_list [(739925, base_asset_price\<lparr>BTC := Dec 25000 0\<rparr>)]"]
    pos first fit
  have 3: "\<exists>s. create two_days (Dec 100000 0) = Inr s \<and> cash s = Dec 100000 0
         \<and> (\<forall>asset. holding s asset = 0) \<and> day_count s = 1
         \<and> dec_eq (initial_value s) (Dec 100000 0)"
    by blast
  from 1 2 3 show ?thesis by (intro conjI)
qed


text \<open>
  Claim C7 as stated makes the initial value equal to the initial cash. With a cash
  of 29 digits, 10000000000000000000000000001, the initial value is
  1.000000000000000000000000000E+28, which is less.
\<close>

theorem initial_value_rounded_counterexample:
  "create two_days (Dec 10000000000000000000000000001 0) = Inr richest
   \<and> cash richest = Dec 10000000000000000000000000001 0
   \<and> initial_value richest = Dec 1000000000000000000000000000 1
   \<and> \<not> dec_eq (initial_value richest) (cash richest)"
proof -
  have r: "dec_fix (Dec 10000000000000000000000000001 0) = Dec 1000000000000000000000000000 1"
    using dec_fix_29 [of 10000000000000000000000000001 1000000000000000000000000000 0]
    by (simp add: round_half_even_def)
  have i: "initial_value richest = Dec 1000000000000000000000000000 1"
    by (simp add: richest_fields dec_add_def dec_of_int_def aligned_def r)
  show ?thesis
    by (simp add: create_richest richest_fields(1) i) (simp add: dec_eq_def aligned_def)
qed


section \<open>Advancing the day\<close>

text \<open>
  Claim C8. When the source yields a pair, \<open>next_day\<close> replaces the current date and
  prices by it and adds one to the day count. When the source is exhausted,
  \<open>next_day\<close> raises \<open>StopIteration\<close>, which the driver turns into \<open>StopGameException\<close>
  (the specification's SimulationEnded), and cash, holdings, day count, date and
  prices stay as they were. With a bounded source of length one the construction
  succeeds, for a cash that is not negative, and the first advance fails in this way.
\<close>

theorem next_day_outcomes:
  "(pull (days s) = (Inr (d, prices), it) \<longrightarrow>
      next_day s = (None, s\<lparr>days := it, current_date := d, current_prices := prices,
                             day_count := day_count s + 1\<rparr>)
      \<and> user_action_3 s = next_day s)
   \<and> (fst (pull (days s)) = Inl StopIteration \<longrightarrow>
        fst (next_day s) = Some StopIteration
        \<and> fst (user_action_3 s) = Some StopGameException
        \<and> snd (user_action_3 s) = snd (next_day s)
        \<and> cash (snd (next_day s)) = cash s \<and> assets (snd (next_day s)) = assets s
        \<and> day_count (snd (next_day s)) = day_count s
        \<and> current_date (snd (next_day s)) = current_date s
        \<and> current_prices (snd (next_day s)) = current_prices s)
   \<and> (\<not> dec_less c (dec_of_int 0) \<longrightarrow>
        (\<exists>s1. create (iter_list [x]) c = Inr s1
           \<and> fst (next_day s1) = Some StopIteration
           \<and> fst (user_action_3 s1) = Some StopGameException))"
proof (intro conjI impI)
  assume p: "pull (days s) = (Inr (d, prices), it)"
  then show "next_day s = (None, s\<lparr>days := it, current_date := d, current_prices := prices,
                             day_count := day_count s + 1\<rparr>)"
    by (simp add: next_day_def)
  then show "user_action_3 s = next_day s"
    by (simp add: user_action_3_def)
next
  assume "fst (pull (days s)) = Inl StopIteration"
  then obtain it where p: "pull (days s) = (Inl StopIteration, it)"
    by (cases "pull (days s)") simp
  then have n: "next_day s = (Some StopIteration, s\<lparr>days := it\<rparr>)"
    by (simp add: next_day_def)
  show "fst (next_day s) = Some StopIteration"
    "fst (user_action_3 s) = Some StopGameException"
    "snd (user_action_3 s) = snd (next_day s)"
    "cash (snd (next_day s)) = cash s" "assets (snd (next_day s)) = assets s"
    "day_count (snd (next_day s)) = day_count s"
    "current_date (snd (next_day s)) = current_date s"
    "current_prices (snd (next_day s)) = current_prices s"
    by (simp_all add: n user_action_3_def)
next
  assume "\<not> dec_less c (dec_of_int 0)"
  then show "\<exists>s1. create (iter_list [x]) c = Inr s1
           \<and> fst (next_day s1) = Some StopIteration
           \<and> fst (user_action_3 s1) = Some StopGameException"
    by (cases x) (simp add: create_eq pull_iter_list next_day_def user_action_3_def)
qed

lemma day_one_days:
  "days day_one = iter_list [(739925, base_asset_price\<lparr>BTC := Dec 25000 0\<rparr>)]"
  by (simp add: day_one_def create_eq two_days_def pull_iter_list dec_less_zero_iff)

text \<open>
  The theorem at \<open>day_one\<close>, whose source has one more day, at the state after that
  day, whose source is exhausted, and for a source of length one.
\<close>

theorem next_day_outcomes_witness:
  "next_day day_one
     = (None, day_one\<lparr>days := iter_list [], current_date := 739925,
                       current_prices := base_asset_price\<lparr>BTC := Dec 25000 0\<rparr>,
                       day_count := 2\<rparr>)
   \<and> fst (next_day (snd (next_day day_one))) = Some StopIteration
   \<and> fst (user_action_3 (snd (next_day day_one))) = Some StopGameException
   \<and> cash (snd (next_day (snd (next_day day_one)))) = cash day_one
   \<and> assets (snd (next_day (snd (next_day day_one)))) = assets day_one
   \<and> (\<exists>s1. create (iter_list [(739924, base_asset_price)]) (Dec 100000 0) = Inr s1
         \<and> fst (next_day s1) = Some StopIteration
         \<and> fst (user_action_3 s1) = Some StopGameException)"
proof -
  let ?p2 = "base_asset_price\<lparr>BTC := Dec 25000 0\<rparr>"
  let ?s2 = "day_one\<lparr>days := iter_list [], current_date := 739925, current_prices := ?p2,
      day_count := day_count day_one + 1\<rparr>"
  have p1: "pull (days day_one) = (Inr (739925, ?p2), iter_list [])"
    by (simp add: day_one_days pull_iter_list)
  from next_day_outcomes [where s = day_one and d = 739925 and prices = ?p2 and it = "iter_list []"] p1
  have 1: "next_day day_one = (None, ?s2)"
    by blast
  have p2: "fst (pull (days ?s2)) = Inl StopIteration"
    by (simp add: pull_iter_list)
  from next_day_outcomes [where s = ?s2] p2
  have 2: "fst (next_day ?s2) = Some StopIteration"
    "fst (user_action_3 ?s2) = Some StopGameException"
    "cash (snd (next_day ?s2)) = cash ?s2" "assets (snd (next_day ?s2)) = assets ?s2"
    by blast+
  have pos: "\<not> dec_less (Dec 100000 0) (dec_of_int 0)"
    by (simp add: dec_less_zero_iff)
  from next_day_outcomes [where c = "Dec 100000 0" and x = "(739924, base_asset_price)"] pos
  have 3: "\<exists>s1. create (iter_list [(739924, base_asset_price)]) (Dec 100000 0) = Inr s1
         \<and> fst (next_day s1) = Some StopIteration
         \<and> fst (user_action_3 s1) = Some StopGameException"
    by blast
  from 1 2 3 show ?thesis
    by (simp add: day_one_fields)
qed


section \<open>Quantities that are not positive\<close>

text \<open>
  Claim C4, as the code has it. Neither method checks the sign of the quantity. In a
  reachable state, for a tracked symbol held in a non-negative quantity, selling a
  quantity \<open>q \<le> 0\<close> succeeds, sets the cash to cash + price * q in decimal arithmetic
  and the holding to holding - q; a negative \<open>q\<close> raises the holding, and lowers the
  cash when the price is positive and neither the product nor the sum is rounded.
  Buying a negative quantity at a non-negative price with a non-negative cash
  succeeds, sets the cash to cash - price * q and the holding to holding + q; it
  lowers the holding, and raises the cash when the price is positive and nothing is
  rounded. The cash can fall below zero by such a sale and a holding below zero by
  such a purchase, as at \<open>day_one\<close>.
\<close>

theorem nonpositive_quantities:
  assumes "reachable others s" and "price_of s asset = Some pr"
  shows
    "(q \<le> 0 \<and> 0 \<le> holding s asset \<longrightarrow>
        sell others s asset q
          = (None, s\<lparr>cash := dec_add (cash s) (dec_mul pr (dec_of_int q)),
                     assets := (assets s)(asset \<mapsto> holding s asset - q)\<rparr>))
     \<and> (q < 0 \<and> 0 \<le> holding s asset \<longrightarrow>
          holding s asset < holding (snd (sell others s asset q)) asset)
     \<and> (q < 0 \<and> 0 \<le> holding s asset \<and> 0 < coef pr \<and> mul_exact pr (dec_of_int q)
          \<and> add_exact (cash s) (dec_mul pr (dec_of_int q)) \<longrightarrow>
          dec_less (cash (snd (sell others s asset q))) (cash s))
     \<and> (q < 0 \<and> 0 \<le> coef pr \<and> dec_le (dec_of_int 0) (cash s) \<longrightarrow>
          buy others s asset q
            = (None, s\<lparr>cash := dec_sub (cash s) (dec_mul pr (dec_of_int q)),
                       assets := (assets s)(asset \<mapsto> holding s asset + q)\<rparr>))
     \<and> (q < 0 \<and> 0 \<le> coef pr \<and> dec_le (dec_of_int 0) (cash s) \<longrightarrow>
          holding (snd (buy others s asset q)) asset < holding s asset)
     \<and> (q < 0 \<and> 0 < coef pr \<and> dec_le (dec_of_int 0) (cash s) \<and> mul_exact pr (dec_of_int q)
          \<and> add_exact (cash s) (dec_neg (dec_mul pr (dec_of_int q))) \<longrightarrow>
          dec_less (cash s) (cash (snd (buy others s asset q))))
     \<and> dec_less (cash (snd (sell [] day_one ''BTC'' (- 6)))) (dec_of_int 0)
     \<and> holding (snd (buy [] day_one ''BTC'' (- 1))) ''BTC'' < 0"
proof -
  let ?x = "dec_mul pr (dec_of_int q)"
  from reachable_dom [OF assms(1)] price_of_tracked [OF assms(2)]
  have "asset \<in> dom (assets s)" by simp
  then have h: "assets s asset = Some (holding s asset)"
    by (auto simp: holding_def)
  have sell: "sell others s asset q
          = (None, s\<lparr>cash := dec_add (cash s) ?x,
                     assets := (assets s)(asset \<mapsto> holding s asset - q)\<rparr>)"
    if "q \<le> 0" "0 \<le> holding s asset"
    using that h assms(2) by (simp add: sell_eq)
  have buy: "buy others s asset q
            = (None, s\<lparr>cash := dec_sub (cash s) ?x,
                       assets := (assets s)(asset \<mapsto> holding s asset + q)\<rparr>)"
    if "q < 0" "0 \<le> coef pr" "dec_le (dec_of_int 0) (cash s)"
  proof -
    from that have "coef ?x \<le> 0"
      by (simp add: coef_dec_mul_nonpos coef_dec_of_int)
    moreover from that have "0 \<le> coef (cash s)"
      by (simp add: dec_le_zero_iff)
    ultimately have "\<not> dec_less (cash s) ?x"
      by (rule dec_less_nonpos_nonneg)
    with assms(2) show ?thesis by (simp add: buy_eq)
  qed
  have neg: "coef ?x < 0" if "q < 0" "0 < coef pr" "mul_exact pr (dec_of_int q)"
    using that by (simp add: dec_mul_exact coef_dec_of_int mult_less_0_iff)
  show ?thesis
  proof (intro conjI impI)
    show "sell others s asset q
          = (None, s\<lparr>cash := dec_add (cash s) ?x,
                     assets := (assets s)(asset \<mapsto> holding s asset - q)\<rparr>)"
      if "q \<le> 0 \<and> 0 \<le> holding s asset"
      using that sell by simp
    show "holding s asset < holding (snd (sell others s asset q)) asset"
      if "q < 0 \<and> 0 \<le> holding s asset"
      using that sell by (simp add: holding_def)
    show "dec_less (cash (snd (sell others s asset q))) (cash s)"
      if "q < 0 \<and> 0 \<le> holding s asset \<and> 0 < coef pr \<and> mul_exact pr (dec_of_int q)
          \<and> add_exact (cash s) ?x"
      using that sell neg by (simp add: dec_add_negative_less)
    show "buy others s asset q
            = (None, s\<lparr>cash := dec_sub (cash s) ?x,
                       assets := (assets s)(asset \<mapsto> holding s asset + q)\<rparr>)"
      if "q < 0 \<and> 0 \<le> coef pr \<and> dec_le (dec_of_int 0) (cash s)"
      using that buy by simp
    show "holding (snd (buy others s asset q)) asset < holding s asset"
      if "q < 0 \<and> 0 \<le> coef pr \<and> dec_le (dec_of_int 0) (cash s)"
      using that buy by (simp add: holding_def)
    show "dec_less (cash s) (cash (snd (buy others s asset q)))"
      if "q < 0 \<and> 0 < coef pr \<and> dec_le (dec_of_int 0) (cash s) \<and> mul_exact pr (dec_of_int q)
          \<and> add_exact (cash s) (dec_neg ?x)"
    proof -
      from that neg have "0 < coef (dec_neg ?x)"
        by (simp add: dec_neg_def)
      with that have "dec_less (cash s) (dec_add (cash s) (dec_neg ?x))"
        by (simp add: dec_add_positive_less)
      with that buy show ?thesis
        by (simp add: dec_sub_def)
    qed
    show "dec_less (cash (snd (sell [] day_one ''BTC'' (- 6)))) (dec_of_int 0)"
      by (simp add: sell_eq day_one_price day_one_fields tracked_eval dec_small)
    show "holding (snd (buy [] day_one ''BTC'' (- 1))) ''BTC'' < 0"
      by (simp add: buy_eq day_one_price day_one_fields tracked_eval holding_def dec_small)
  qed
qed

text \<open>The theorem at \<open>day_one\<close>, for BTC and the quantity minus one.\<close>

theorem nonpositive_quantities_witness:
  "sell [] day_one ''BTC'' (- 1)
     = (None, day_one\<lparr>cash := Dec 80000 0, assets := (assets day_one)(''BTC'' \<mapsto> 1)\<rparr>)
   \<and> holding day_one ''BTC'' < holding (snd (sell [] day_one ''BTC'' (- 1))) ''BTC''
   \<and> dec_less (cash (snd (sell [] day_one ''BTC'' (- 1)))) (cash day_one)
   \<and> buy [] day_one ''BTC'' (- 1)
     = (None, day_one\<lparr>cash := Dec 120000 0, assets := (assets day_one)(''BTC'' \<mapsto> - 1)\<rparr>)
   \<and> holding (snd (buy [] day_one ''BTC'' (- 1))) ''BTC'' < holding day_one ''BTC''
   \<and> dec_less (cash day_one) (cash (snd (buy [] day_one ''BTC'' (- 1))))"
proof -
  have r: "reachable [] day_one"
    by (rule reachable.created) (rule create_two_days)
  have q: "(- 1::int) \<le> 0" "(- 1::int) < 0" by simp_all
  have h: "0 \<le> holding day_one ''BTC''" by (simp add: day_one_holding)
  have p: "0 < coef (Dec 20000 0)" "0 \<le> coef (Dec 20000 0)" by simp_all
  have c: "dec_le (dec_of_int 0) (cash day_one)"
    by (simp add: dec_le_zero_iff day_one_fields)
  have m: "mul_exact (Dec 20000 0) (dec_of_int (- 1))"
    by (simp add: mul_exact_def dec_of_int_def ndigits_le_prec_iff)
  have prod: "dec_mul (Dec 20000 0) (dec_of_int (- 1)) = Dec (- 20000) 0"
    by (simp add: dec_small)
  have a: "add_exact (cash day_one) (dec_mul (Dec 20000 0) (dec_of_int (- 1)))"
    "add_exact (cash day_one) (dec_neg (dec_mul (Dec 20000 0) (dec_of_int (- 1))))"
    by (simp_all add: prod add_exact_def day_one_fields dec_neg_def aligned_def ndigits_le_prec_iff)
  have v: "dec_add (cash day_one) (dec_mul (Dec 20000 0) (dec_of_int (- 1))) = Dec 80000 0"
    "dec_sub (cash day_one) (dec_mul (Dec 20000 0) (dec_of_int (- 1))) = Dec 120000 0"
    by (simp_all add: prod day_one_fields dec_small)
  note t = nonpositive_quantities [OF r day_one_price(1), where q = "- 1"]
  from t q h have 1: "sell [] day_one ''BTC'' (- 1)
     = (None, day_one\<lparr>cash := dec_add (cash day_one) (dec_mul (Dec 20000 0) (dec_of_int (- 1))),
               assets := (assets day_one)(''BTC'' \<mapsto> holding day_one ''BTC'' - (- 1))\<rparr>)"
    by blast
  from t q h have 2: "holding day_one ''BTC'' < holding (snd (sell [] day_one ''BTC'' (- 1))) ''BTC''"
    by blast
  from t q h p m a have 3: "dec_less (cash (snd (sell [] day_one ''BTC'' (- 1)))) (cash day_one)"
    by blast
  from t q p c have 4: "buy [] day_one ''BTC'' (- 1)
     = (None, day_one\<lparr>cash := dec_sub (cash day_one) (dec_mul (Dec 20000 0) (dec_of_int (- 1))),
               assets := (assets day_one)(''BTC'' \<mapsto> holding day_one ''BTC'' + (- 1))\<rparr>)"
    by blast
  from t q p c have 5: "holding (snd (buy [] day_one ''BTC'' (- 1))) ''BTC'' < holding day_one ''BTC''"
    by blast
  from t q p c m a have 6: "dec_less (cash day_one) (cash (snd (buy [] day_one ''BTC'' (- 1))))"
    by blast
  from 1 4 have 14: "sell [] day_one ''BTC'' (- 1)
     = (None, day_one\<lparr>cash := Dec 80000 0, assets := (assets day_one)(''BTC'' \<mapsto> 1)\<rparr>)"
    "buy [] day_one ''BTC'' (- 1)
     = (None, day_one\<lparr>cash := Dec 120000 0, assets := (assets day_one)(''BTC'' \<mapsto> - 1)\<rparr>)"
    by (simp_all only: v day_one_holding) simp_all
  from 14 2 3 5 6 show ?thesis by (intro conjI)
qed


lemma richer_arith:
  "dec_mul (Dec 5 (- 1)) (dec_of_int (- 1)) = Dec (- 5) (- 1)"
  "dec_add (Dec 10000000000000000000000000000 0) (Dec (- 5) (- 1)) = Dec 1000000000000000000000000000 1"
  "\<not> dec_less (Dec 1000000000000000000000000000 1) (Dec 10000000000000000000000000000 0)"
proof -
  have r: "dec_fix (Dec 99999999999999999999999999995 (- 1)) = Dec 1000000000000000000000000000 1"
    using dec_fix_29 [of 99999999999999999999999999995 10000000000000000000000000000 "- 1"]
    by (simp add: round_half_even_def)
  show "dec_mul (Dec 5 (- 1)) (dec_of_int (- 1)) = Dec (- 5) (- 1)"
    by (simp add: dec_small)
  show "dec_add (Dec 10000000000000000000000000000 0) (Dec (- 5) (- 1)) = Dec 1000000000000000000000000000 1"
    by (simp add: dec_add_def aligned_def r)
  show "\<not> dec_less (Dec 1000000000000000000000000000 1) (Dec 10000000000000000000000000000 0)"
    by (simp add: dec_less_def aligned_def)
qed

text \<open>
  Claim C4 as stated lets every sale of a negative quantity lower the cash strictly.
  At \<open>richer\<close>, whose cash is 10000000000000000000000000000, selling minus one XPR at
  0.5 gives a sum of 29 digits that rounds back up: the cash after is numerically the
  cash before.
\<close>

theorem negative_sale_keeps_cash_counterexample:
  "fst (sell [] richer ''XPR'' (- 1)) = None
   \<and> cash richer = Dec 10000000000000000000000000000 0
   \<and> cash (snd (sell [] richer ''XPR'' (- 1))) = Dec 1000000000000000000000000000 1
   \<and> \<not> dec_less (cash (snd (sell [] richer ''XPR'' (- 1)))) (cash richer)"
proof -
  have s: "sell [] richer ''XPR'' (- 1)
      = (None, richer\<lparr>cash := Dec 1000000000000000000000000000 1,
                       assets := (assets richer)(''XPR'' \<mapsto> 1)\<rparr>)"
    by (simp add: sell_eq base_price richer_fields tracked_eval base_asset_price_def richer_arith)
  show ?thesis
    by (simp only: s fst_conv snd_conv) (simp add: richer_fields richer_arith)
qed

section \<open>The random walk\<close>































end
